theory Spec2Isabelle
  imports Complex_Main "HOL-Library.Log_Nat"
begin

section \<open>Errors and strings\<close>

text \<open>
  The Python exceptions that the modelled functions of
  \<^verbatim>\<open>adv_patch_bench/transforms/lighting_tf.py\<close> and
  \<^verbatim>\<open>scripts/run_realism_test_main.py\<close> can raise. A function that can raise returns
  \<open>py_error + 'a\<close>, with \<open>Inl\<close> for the exception.
\<close>

datatype py_error =
  ValueError | AssertionError | IndexError | TypeError | AttributeError | RuntimeError
  | OverflowError | NotImplementedError

text \<open>\<^verbatim>\<open>sub in s\<close> on Python strings: \<open>sub\<close> occurs in \<open>s\<close> as a contiguous run.\<close>

primrec startswith :: "string \<Rightarrow> string \<Rightarrow> bool" where
  "startswith [] sub = (sub = [])"
| "startswith (c # cs) sub = (case sub of [] \<Rightarrow> True | d # ds \<Rightarrow> c = d \<and> startswith cs ds)"

primrec str_contains :: "string \<Rightarrow> string \<Rightarrow> bool" where
  "str_contains [] sub = (sub = [])"
| "str_contains (c # cs) sub = (startswith (c # cs) sub \<or> str_contains cs sub)"

text \<open>
  \<^verbatim>\<open>s.split(sep)\<close> for a one-character separator: the pieces between the separators, in
  order; there is always at least one piece.
\<close>

primrec split :: "char \<Rightarrow> string \<Rightarrow> string list" where
  "split sep [] = [[]]"
| "split sep (c # cs) =
     (if c = sep then [] # split sep cs
      else (case split sep cs of [] \<Rightarrow> [[c]] | w # ws \<Rightarrow> (c # w) # ws))"

section \<open>The table of relighting methods (hparams.py)\<close>

definition RELIGHT_METHODS :: "string list" where
  "RELIGHT_METHODS =
     [''color_transfer'', ''color_transfer_hsv-sv'', ''color_transfer_lab-l'',
      ''polynomial'', ''polynomial_max'', ''polynomial_mean'', ''polynomial_hsv-sv'',
      ''polynomial_lab-l'', ''percentile'']"

section \<open>RelightTransform.__init__\<close>

text \<open>
  The colour-space converters a \<^verbatim>\<open>RelightTransform\<close> can hold: Kornia's modules and the
  two classes \<^verbatim>\<open>RGBtoLab\<close>, \<^verbatim>\<open>LabtoRGB\<close> of lighting_tf.py.
\<close>

datatype color_tf =
  KorniaRgbToHsv | KorniaHsvToRgb | KorniaRgbToLab | KorniaLabToRgb | RGBtoLab | LabtoRGB

record relight_transform =
  rt_method :: string
  rt_channels :: "nat list option"
  rt_color_tfs :: "(color_tf \<times> color_tf) option"

text \<open>\<^verbatim>\<open>method.split("_")[-1].split("-")[0]\<close>\<close>

definition color_space :: "string \<Rightarrow> string" where
  "color_space meth = hd (split CHR ''-'' (last (split CHR ''_'' meth)))"

text \<open>
  \<^verbatim>\<open>channels = None if len(method.split("-")) == 1 else method.split("-")[1]\<close>
\<close>

definition channels_suffix :: "string \<Rightarrow> string option" where
  "channels_suffix meth =
     (if length (split CHR ''-'' meth) = 1 then None
      else Some (split CHR ''-'' meth ! 1))"

definition RelightTransform_init :: "string \<Rightarrow> py_error + relight_transform" where
  "RelightTransform_init meth =
     (let channels = channels_suffix meth;
          cs = color_space meth;
          (color_tfs, chans) =
            (if cs = ''hsv'' then
               (Some (KorniaRgbToHsv, KorniaHsvToRgb),
                if channels = Some ''sv'' then Some [1, 2] else None)
             else if cs = ''lab'' then
               (if meth = ''color_transfer_lab'' then Some (RGBtoLab, LabtoRGB)
                else Some (KorniaRgbToLab, KorniaLabToRgb),
                if channels = Some ''l'' then Some [0] else None)
             else (None, None))
      in if color_tfs = None \<and> str_contains meth ''color_transfer'' then Inl ValueError
         else Inr \<lparr>rt_method = meth, rt_channels = chans, rt_color_tfs = color_tfs\<rparr>)"

section \<open>Tensor elements\<close>

text \<open>
  An element of a float tensor is a finite number, an infinity or NaN. Arithmetic on finite
  numbers is exact: rounding to 32 bits and overflow are not modelled. The special values
  follow IEEE 754 as PyTorch and NumPy implement it (NaN is contagious, every comparison
  with NaN is false, \<open>inf - inf\<close>, \<open>0 * inf\<close> and \<open>0 / 0\<close> are NaN); there is one zero,
  so \<open>x / 0\<close> takes the sign of \<open>x\<close>.
\<close>

datatype fval = Num real | PInf | NInf | NaN

fun isnan :: "fval \<Rightarrow> bool" where
  "isnan NaN = True"
| "isnan _ = False"

fun is_neg :: "fval \<Rightarrow> bool" where
  "is_neg (Num a) = (a < 0)"
| "is_neg NInf = True"
| "is_neg _ = False"

fun fneg :: "fval \<Rightarrow> fval" where
  "fneg (Num a) = Num (- a)"
| "fneg PInf = NInf"
| "fneg NInf = PInf"
| "fneg NaN = NaN"

fun fadd :: "fval \<Rightarrow> fval \<Rightarrow> fval" where
  "fadd (Num a) (Num b) = Num (a + b)"
| "fadd NaN _ = NaN"
| "fadd _ NaN = NaN"
| "fadd PInf NInf = NaN"
| "fadd NInf PInf = NaN"
| "fadd PInf _ = PInf"
| "fadd _ PInf = PInf"
| "fadd NInf _ = NInf"
| "fadd _ NInf = NInf"

definition fsub :: "fval \<Rightarrow> fval \<Rightarrow> fval" where
  "fsub a b = fadd a (fneg b)"

fun fmul :: "fval \<Rightarrow> fval \<Rightarrow> fval" where
  "fmul (Num a) (Num b) = Num (a * b)"
| "fmul NaN _ = NaN"
| "fmul _ NaN = NaN"
| "fmul a b =
     (if a = Num 0 \<or> b = Num 0 then NaN
      else if is_neg a = is_neg b then PInf else NInf)"

fun fdiv :: "fval \<Rightarrow> fval \<Rightarrow> fval" where
  "fdiv (Num a) (Num b) =
     (if b \<noteq> 0 then Num (a / b)
      else if a = 0 then NaN else if 0 < a then PInf else NInf)"
| "fdiv NaN _ = NaN"
| "fdiv _ NaN = NaN"
| "fdiv (Num a) _ = Num 0"
| "fdiv a (Num b) = (if is_neg a = (b < 0) then PInf else NInf)"
| "fdiv _ _ = NaN"

fun fabs :: "fval \<Rightarrow> fval" where
  "fabs (Num a) = Num \<bar>a\<bar>"
| "fabs NaN = NaN"
| "fabs _ = PInf"

fun fsqrt :: "fval \<Rightarrow> fval" where
  "fsqrt (Num a) = (if 0 \<le> a then Num (sqrt a) else NaN)"
| "fsqrt PInf = PInf"
| "fsqrt _ = NaN"

fun flog :: "fval \<Rightarrow> fval" where
  "flog (Num a) = (if 0 < a then Num (ln a) else if a = 0 then NInf else NaN)"
| "flog PInf = PInf"
| "flog _ = NaN"

fun fexp :: "fval \<Rightarrow> fval" where
  "fexp (Num a) = Num (exp a)"
| "fexp PInf = PInf"
| "fexp NInf = Num 0"
| "fexp NaN = NaN"

text \<open>\<open>x ** n\<close> for a non-negative integer exponent; \<open>x ** 0\<close> is 1 for every \<open>x\<close>, NaN too.\<close>

fun fpow :: "fval \<Rightarrow> nat \<Rightarrow> fval" where
  "fpow x 0 = Num 1"
| "fpow (Num a) n = Num (a ^ n)"
| "fpow PInf n = PInf"
| "fpow NInf n = (if even n then PInf else NInf)"
| "fpow NaN n = NaN"

text \<open>\<open>a < b\<close>; false when either side is NaN.\<close>

fun flt :: "fval \<Rightarrow> fval \<Rightarrow> bool" where
  "flt (Num a) (Num b) = (a < b)"
| "flt NaN _ = False"
| "flt _ NaN = False"
| "flt NInf b = (b \<noteq> NInf)"
| "flt a PInf = (a \<noteq> PInf)"
| "flt _ _ = False"

text \<open>
  \<^verbatim>\<open>torch.maximum\<close> and \<^verbatim>\<open>torch.minimum\<close> (also what \<^verbatim>\<open>clamp\<close> and the \<^verbatim>\<open>max\<close>
  reduction do on each element): NaN if either argument is NaN.
\<close>

definition fmax :: "fval \<Rightarrow> fval \<Rightarrow> fval" where
  "fmax a b = (if isnan a \<or> isnan b then NaN else if flt a b then b else a)"

definition fmin :: "fval \<Rightarrow> fval \<Rightarrow> fval" where
  "fmin a b = (if isnan a \<or> isnan b then NaN else if flt b a then b else a)"

text \<open>\<^verbatim>\<open>x.clamp_min(lo)\<close> and \<^verbatim>\<open>x.clamp(lo, hi)\<close> on one element.\<close>

definition clamp_min :: "fval \<Rightarrow> real \<Rightarrow> fval" where
  "clamp_min x lo = fmax x (Num lo)"

definition clamp :: "fval \<Rightarrow> real \<Rightarrow> real \<Rightarrow> fval" where
  "clamp x lo hi = fmin (fmax x (Num lo)) (Num hi)"

text \<open>The module constant \<^verbatim>\<open>_EPS = 1e-6\<close>.\<close>

definition EPS :: real where
  "EPS = 1 / 1000000"

subsection \<open>Reductions of a one-dimensional tensor\<close>

text \<open>\<^verbatim>\<open>x.sum()\<close>, \<^verbatim>\<open>x.mean()\<close> and \<^verbatim>\<open>x.std()\<close>. The mean of an empty tensor is
  \<open>0 / 0\<close>, NaN. The standard deviation has Bessel's correction: PyTorch divides the sum
  of squared deviations by \<open>max(0, n - 1)\<close>, so a tensor of fewer than two elements has
  standard deviation NaN.\<close>

definition tsum :: "fval list \<Rightarrow> fval" where
  "tsum xs = foldl fadd (Num 0) xs"

definition tmean :: "fval list \<Rightarrow> fval" where
  "tmean xs = fdiv (tsum xs) (Num (real (length xs)))"

definition tstd :: "fval list \<Rightarrow> fval" where
  "tstd xs =
     (let m = tmean xs;
          ss = tsum (map (\<lambda>x. fmul (fsub x m) (fsub x m)) xs)
      in fsqrt (fdiv ss (Num (real (length xs - 1)))))"

subsection \<open>Raising and the sequencing of calls that can raise\<close>

definition ebind :: "'e + 'a \<Rightarrow> ('a \<Rightarrow> 'e + 'b) \<Rightarrow> 'e + 'b" where
  "ebind r f = (case r of Inl e \<Rightarrow> Inl e | Inr v \<Rightarrow> f v)"

text \<open>A loop that appends one result per item and stops at the first exception.\<close>

primrec emap :: "('a \<Rightarrow> 'e + 'b) \<Rightarrow> 'a list \<Rightarrow> 'e + 'b list" where
  "emap f [] = Inr []"
| "emap f (x # xs) =
     (case f x of Inl e \<Rightarrow> Inl e
      | Inr y \<Rightarrow> (case emap f xs of Inl e \<Rightarrow> Inl e | Inr ys \<Rightarrow> Inr (y # ys)))"

text \<open>Indexing a Python list or the first dimension of a tensor with a non-negative index.\<close>

definition getitem :: "'a list \<Rightarrow> nat \<Rightarrow> py_error + 'a" where
  "getitem xs i = (if i < length xs then Inr (xs ! i) else Inl IndexError)"

subsection \<open>Python floats\<close>

text \<open>
  A Python \<^verbatim>\<open>float\<close> is an IEEE 754 binary64 number. The scalar arithmetic on the
  \<^verbatim>\<open>percentile\<close> argument is modelled to the bit: a finite double is the rational number it
  denotes, and every operation rounds the exact result to the nearest double, ties to the
  even significand (53 bits, least exponent \<open>-1022\<close>). Results of magnitude \<open>2^1024\<close> or
  more are not doubles; \<open>overflows\<close> recognises them.
\<close>

definition pow2 :: "int \<Rightarrow> rat" where
  "pow2 e = (if 0 \<le> e then 2 ^ nat e else 1 / 2 ^ nat (- e))"

text \<open>The exponent \<open>e\<close> with \<open>2^e \<le> |x| < 2^(e+1)\<close>, for \<open>x \<noteq> 0\<close>.\<close>

definition expo2 :: "rat \<Rightarrow> int" where
  "expo2 x =
     (let (a, b) = quotient_of x;
          d = bitlen \<bar>a\<bar> - bitlen b
      in if pow2 d \<le> \<bar>x\<bar> then d else d - 1)"

text \<open>Rounding to the nearest integer, ties to even: also Python's \<^verbatim>\<open>round(x)\<close>.\<close>

definition py_round :: "rat \<Rightarrow> int" where
  "py_round x =
     (let f = \<lfloor>x\<rfloor>; r = x - of_int f
      in if r < 1 / 2 then f else if 1 / 2 < r then f + 1
         else if even f then f else f + 1)"

definition fl64 :: "rat \<Rightarrow> rat" where
  "fl64 x =
     (if x = 0 then 0
      else let q = pow2 (max (expo2 x) (- 1022) - 52)
           in of_int (py_round (x / q)) * q)"

definition overflows :: "rat \<Rightarrow> bool" where
  "overflows x = (2 ^ 1024 \<le> \<bar>fl64 x\<bar>)"

definition is_double :: "rat \<Rightarrow> bool" where
  "is_double x = (fl64 x = x \<and> \<not> overflows x)"

section \<open>Image tensors\<close>

text \<open>
  A tensor of shape \<open>[B, C, H, W]\<close> is the list of its \<open>B\<close> images, an image the list of its
  \<open>C\<close> channel planes, a plane the list of its \<open>H * W\<close> values in row-major order. A mask
  of shape \<open>[B, H, W]\<close> is a list of \<open>B\<close> planes of booleans. Lists of unequal lengths at
  one level do not denote a tensor.
\<close>

type_synonym plane = "fval list"
type_synonym image = "plane list"
type_synonym batch = "image list"
type_synonym mask = "bool list list"

text \<open>\<^verbatim>\<open>x[:, channel]\<close>\<close>

definition select_channel :: "batch \<Rightarrow> nat \<Rightarrow> py_error + plane list" where
  "select_channel x channel =
     (if \<forall>img \<in> set x. channel < length img then Inr (map (\<lambda>img. img ! channel) x)
      else Inl IndexError)"

text \<open>
  \<^verbatim>\<open>torch.masked_select(x, mask)\<close> for a tensor and a mask of one shape: the values at the
  true positions, in row-major order. Shapes that differ are reported as the RuntimeError
  of shapes that cannot be broadcast; broadcasting a smaller mask is not modelled.
\<close>

definition masked_select :: "plane list \<Rightarrow> mask \<Rightarrow> py_error + fval list" where
  "masked_select x m =
     (if map length x = map length m
      then Inr (concat (map2 (\<lambda>xs ms. map fst (filter snd (zip xs ms))) x m))
      else Inl RuntimeError)"

text \<open>
  Broadcasting one dimension to the size \<open>n\<close>: a dimension of that size stays, a dimension
  of size one is repeated, any other size raises.
\<close>

definition bcast_to :: "nat \<Rightarrow> 'a list \<Rightarrow> py_error + 'a list" where
  "bcast_to n xs =
     (if length xs = n then Inr xs
      else if length xs = 1 then Inr (replicate n (hd xs))
      else Inl RuntimeError)"

subsection \<open>The constant matrices of RGBtoLab and LabtoRGB\<close>

type_synonym matrix = "real list list"

definition matmul :: "matrix \<Rightarrow> matrix \<Rightarrow> matrix" where
  "matmul a b =
     map (\<lambda>row. map (\<lambda>j. sum_list (map2 (*) row (map (\<lambda>r. r ! j) b))) [0..<length (hd b)]) a"

definition rgb_to_lms :: matrix where
  "rgb_to_lms =
     [[3811 / 10000, 5783 / 10000, 402 / 10000],
      [1967 / 10000, 7244 / 10000, 782 / 10000],
      [241 / 10000, 1288 / 10000, 8444 / 10000]]"

definition lab_scale :: matrix where
  "lab_scale = [[1 / sqrt 3, 0, 0], [0, 1 / sqrt 6, 0], [0, 0, 1 / sqrt 2]]"

definition loglms_to_lab :: matrix where
  "loglms_to_lab = matmul lab_scale [[1, 1, 1], [1, 1, - 2], [1, - 1, 0]]"

definition lab_to_loglms :: matrix where
  "lab_to_loglms = matmul [[1, 1, 1], [1, 1, - 1], [1, - 2, 0]] lab_scale"

definition lms_to_rgb :: matrix where
  "lms_to_rgb =
     [[44679 / 10000, - 35873 / 10000, 1193 / 10000],
      [- 12186 / 10000, 23809 / 10000, - 1624 / 10000],
      [497 / 10000, - 2439 / 10000, 12045 / 10000]]"

subsection \<open>The contraction \<^verbatim>\<open>torch.einsum("bchw,cd->bdhw", x, m)\<close>\<close>

text \<open>
  Output channel \<open>d\<close> at a position is the sum over \<open>c\<close> of input channel \<open>c\<close> at that
  position times \<open>m[c][d]\<close>: the input channels are weighted by the column \<open>d\<close> of \<open>m\<close>.
  The channel dimension of the input has the size of \<open>m\<close>'s first dimension or is broadcast
  from size one.
\<close>

definition scale_plane :: "real \<Rightarrow> plane \<Rightarrow> plane" where
  "scale_plane w p = map (\<lambda>v. fmul v (Num w)) p"

definition mix :: "plane list \<Rightarrow> real list \<Rightarrow> plane" where
  "mix ps ws =
     (case map2 (\<lambda>p w. scale_plane w p) ps ws of
        [] \<Rightarrow> []
      | q # qs \<Rightarrow> foldl (map2 fadd) q qs)"

definition einsum_image :: "matrix \<Rightarrow> image \<Rightarrow> py_error + image" where
  "einsum_image m img =
     ebind (bcast_to (length m) img)
       (\<lambda>ps. Inr (map (\<lambda>d. mix ps (map (\<lambda>row. row ! d) m)) [0..<length (hd m)]))"

definition einsum_bchw_cd :: "batch \<Rightarrow> matrix \<Rightarrow> py_error + batch" where
  "einsum_bchw_cd x m = emap (einsum_image m) x"

subsection \<open>RGBtoLab.forward and LabtoRGB.forward\<close>

definition map_batch :: "(fval \<Rightarrow> fval) \<Rightarrow> batch \<Rightarrow> batch" where
  "map_batch f x = map (map (map f)) x"

definition RGBtoLab_forward :: "batch \<Rightarrow> py_error + batch" where
  "RGBtoLab_forward inputs =
     (let clamped = map_batch (\<lambda>v. clamp v EPS (1 - EPS)) inputs
      in ebind (einsum_bchw_cd clamped rgb_to_lms)
           (\<lambda>lms. einsum_bchw_cd (map_batch flog lms) loglms_to_lab))"

definition LabtoRGB_forward :: "batch \<Rightarrow> py_error + batch" where
  "LabtoRGB_forward inputs =
     ebind (einsum_bchw_cd inputs lab_to_loglms)
       (\<lambda>loglms. einsum_bchw_cd (map_batch fexp loglms) lms_to_rgb)"

section \<open>The colour-transfer fitter\<close>

text \<open>
  \<^verbatim>\<open>_get_color_transfer_params(real_pixels_by_channel, syn_obj, obj_mask, mode)\<close>.
  Kornia's \<^verbatim>\<open>rgb_to_hsv\<close> is not part of the repository and is a parameter. The defaults
  \<^verbatim>\<open>None\<close> of \<^verbatim>\<open>syn_obj\<close> and \<^verbatim>\<open>obj_mask\<close> raise where the value is first used.
\<close>

definition ct_convert ::
  "(batch \<Rightarrow> py_error + batch) \<Rightarrow> batch option \<Rightarrow> string \<Rightarrow> py_error + batch" where
  "ct_convert rgb_to_hsv syn_obj mode =
     (if str_contains mode ''hsv'' then
        (case syn_obj of None \<Rightarrow> Inl TypeError | Some s \<Rightarrow> rgb_to_hsv s)
      else if str_contains mode ''lab'' then
        (case syn_obj of None \<Rightarrow> Inl AttributeError | Some s \<Rightarrow> RGBtoLab_forward s)
      else (case syn_obj of None \<Rightarrow> Inl TypeError | Some s \<Rightarrow> Inr s))"

text \<open>The two statements of the loop body, on the two samples of one channel.\<close>

definition ct_scale :: "fval list \<Rightarrow> fval list \<Rightarrow> fval" where
  "ct_scale real_pixels syn_pixels = fdiv (tstd real_pixels) (clamp_min (tstd syn_pixels) EPS)"

definition ct_offset :: "fval list \<Rightarrow> fval list \<Rightarrow> fval \<Rightarrow> fval" where
  "ct_offset real_pixels syn_pixels scale =
     fsub (tmean real_pixels) (fmul (tmean syn_pixels) scale)"

text \<open>
  \<^verbatim>\<open>torch.masked_select(syn_obj[:, channel], obj_mask)\<close>: the synthetic sample of a
  channel.
\<close>

definition syn_sample :: "batch \<Rightarrow> mask option \<Rightarrow> nat \<Rightarrow> py_error + fval list" where
  "syn_sample syn_obj obj_mask channel =
     ebind (select_channel syn_obj channel) (\<lambda>plane.
       case obj_mask of None \<Rightarrow> Inl TypeError | Some m \<Rightarrow> masked_select plane m)"

definition ct_channel ::
  "batch \<Rightarrow> mask option \<Rightarrow> fval list list \<Rightarrow> nat \<Rightarrow> py_error + fval list" where
  "ct_channel syn_obj obj_mask real_pixels_by_channel channel =
     ebind (syn_sample syn_obj obj_mask channel) (\<lambda>syn_pixels.
     ebind (getitem real_pixels_by_channel channel) (\<lambda>real_pixels.
       let scale = ct_scale real_pixels syn_pixels
       in Inr [scale, ct_offset real_pixels syn_pixels scale]))"

text \<open>The coefficients before the assertion, one row \<open>[scale, offset]\<close> per channel.\<close>

definition ct_fit_coeffs ::
  "(batch \<Rightarrow> py_error + batch) \<Rightarrow> fval list list \<Rightarrow> batch option \<Rightarrow> mask option \<Rightarrow>
   string \<Rightarrow> py_error + fval list list" where
  "ct_fit_coeffs rgb_to_hsv real_pixels_by_channel syn_obj obj_mask mode =
     ebind (ct_convert rgb_to_hsv syn_obj mode)
       (\<lambda>syn. emap (ct_channel syn obj_mask real_pixels_by_channel) [0, 1, 2])"

definition get_color_transfer_params ::
  "(batch \<Rightarrow> py_error + batch) \<Rightarrow> fval list list \<Rightarrow> batch option \<Rightarrow> mask option \<Rightarrow>
   string \<Rightarrow> py_error + fval list list" where
  "get_color_transfer_params rgb_to_hsv real_pixels_by_channel syn_obj obj_mask mode =
     ebind (ct_fit_coeffs rgb_to_hsv real_pixels_by_channel syn_obj obj_mask mode)
       (\<lambda>coeffs. if list_ex (list_ex isnan) coeffs then Inl AssertionError else Inr coeffs)"

section \<open>The percentile fitter\<close>

text \<open>\<^verbatim>\<open>round(min(percentile, 1 - percentile) * 100)\<close> on a Python float.\<close>

definition fold_percentile :: "rat \<Rightarrow> int" where
  "fold_percentile percentile = py_round (fl64 (min percentile (fl64 (1 - percentile)) * 100))"

text \<open>
  Sorting without NaN: the order is \<open>-inf\<close>, the finite numbers, \<open>inf\<close>.
\<close>

primrec finsort :: "fval \<Rightarrow> fval list \<Rightarrow> fval list" where
  "finsort x [] = [x]"
| "finsort x (y # ys) = (if flt y x then y # finsort x ys else x # y # ys)"

definition fsort :: "fval list \<Rightarrow> fval list" where
  "fsort xs = foldr finsort xs []"

text \<open>
  \<^verbatim>\<open>np.nanpercentile(a, q)\<close> with the default linear interpolation: NaN are dropped, the
  rest sorted, and the value at the fractional index \<open>q / 100 * (n - 1)\<close> is interpolated
  between its two neighbours. Nothing but NaN gives NaN (and a warning); a \<open>q\<close> outside
  \<open>[0, 100]\<close> raises ValueError.
\<close>

definition nanpercentile :: "fval list \<Rightarrow> int \<Rightarrow> py_error + fval" where
  "nanpercentile a q =
     (if q < 0 \<or> 100 < q then Inl ValueError
      else let ys = fsort (filter (\<lambda>v. \<not> isnan v) a); n = length ys
           in if n = 0 then Inr NaN
              else let pos = real_of_int q / 100 * real (n - 1);
                       lo = nat \<lfloor>pos\<rfloor>;
                       hi = min (lo + 1) (n - 1)
                   in Inr (fadd (ys ! lo)
                             (fmul (fsub (ys ! hi) (ys ! lo)) (Num (pos - real lo)))))"

text \<open>
  The variable \<^verbatim>\<open>real_pixels\<close> holds the list of the per-channel tensors (or the
  two-dimensional tensor of the default mode) at first and a one-dimensional tensor after
  the first pass of the loop, which assigns to it.
\<close>

datatype pixels = Rows "fval list list" | Flat "fval list"

text \<open>\<^verbatim>\<open>real_pixels[channel].reshape(-1)\<close>\<close>

fun index_reshape :: "pixels \<Rightarrow> nat \<Rightarrow> py_error + fval list" where
  "index_reshape (Rows rs) channel = getitem rs channel"
| "index_reshape (Flat xs) channel = ebind (getitem xs channel) (\<lambda>v. Inr [v])"

text \<open>
  \<^verbatim>\<open>torch.stack(real_pixels, dim=0).view(1, -1)\<close>: the tensors must be of one length and
  the list not empty; the view of no element at all is ambiguous and raises.
\<close>

definition stack :: "'a list list \<Rightarrow> py_error + 'a list list" where
  "stack rs =
     (if rs = [] \<or> (\<exists>r \<in> set rs. length r \<noteq> length (hd rs)) then Inl RuntimeError
      else Inr rs)"

definition stack_view :: "fval list list \<Rightarrow> py_error + fval list list" where
  "stack_view rs =
     ebind (stack rs) (\<lambda>t. if concat t = [] then Inl RuntimeError else Inr [concat t])"

fun percentile_loop :: "int \<Rightarrow> nat list \<Rightarrow> pixels \<Rightarrow> py_error + fval list list" where
  "percentile_loop q [] real_pixels = Inr []"
| "percentile_loop q (channel # rest) real_pixels =
     ebind (index_reshape real_pixels channel) (\<lambda>flat.
     ebind (nanpercentile flat q) (\<lambda>lo_v.
     ebind (nanpercentile flat (100 - q)) (\<lambda>hi_v.
     ebind (percentile_loop q rest (Flat flat)) (\<lambda>rows.
       Inr ([fsub hi_v lo_v, lo_v] # rows)))))"

definition percentile_channels :: "fval list list \<Rightarrow> string \<Rightarrow> py_error + nat list \<times> pixels" where
  "percentile_channels real_pixels mode =
     (if str_contains mode ''-sv'' then Inr ([1, 2], Rows real_pixels)
      else if str_contains mode ''-l'' then Inr ([0], Rows real_pixels)
      else ebind (stack_view real_pixels) (\<lambda>t. Inr ([0], Rows t)))"

definition simple_percentile ::
  "fval list list \<Rightarrow> string \<Rightarrow> rat \<Rightarrow> py_error + fval list list" where
  "simple_percentile real_pixels mode percentile =
     (if \<not> (0 \<le> percentile \<and> percentile \<le> 1) then Inl AssertionError
      else ebind (percentile_channels real_pixels mode)
             (\<lambda>(channels, rp). percentile_loop (fold_percentile percentile) channels rp))"

section \<open>The polynomial fitter\<close>

text \<open>
  \<^verbatim>\<open>_fit_polynomial\<close>. Kornia's \<^verbatim>\<open>warp_perspective\<close>, \<^verbatim>\<open>rgb_to_hsv\<close> and
  \<^verbatim>\<open>rgb_to_lab\<close>, \<^verbatim>\<open>torch.topk\<close> (whose order among equal values is not specified) and
  \<^verbatim>\<open>np.polyfit\<close> are parameters. \<^verbatim>\<open>img_util.coerce_rank(syn_obj, 4)\<close> leaves a tensor of
  four dimensions as it is. The degree is a natural number.
\<close>

record 'm externals =
  warp_perspective :: "batch \<Rightarrow> 'm \<Rightarrow> mask \<Rightarrow> string \<Rightarrow> py_error + batch"
  rgb_to_hsv :: "batch \<Rightarrow> py_error + batch"
  rgb_to_lab :: "batch \<Rightarrow> py_error + batch"
  topk_smallest :: "fval list \<Rightarrow> nat \<Rightarrow> py_error + nat list"
  polyfit :: "fval list \<Rightarrow> fval list \<Rightarrow> nat \<Rightarrow> py_error + fval list"

text \<open>A reduction over the channel dimension that keeps it, with size one.\<close>

definition reduce_planes :: "(fval \<Rightarrow> fval \<Rightarrow> fval) \<Rightarrow> plane list \<Rightarrow> plane" where
  "reduce_planes f ps = (case ps of [] \<Rightarrow> [] | q # qs \<Rightarrow> foldl (map2 f) q qs)"

definition max_planes :: "plane list \<Rightarrow> py_error + plane list" where
  "max_planes ps = (if ps = [] then Inl IndexError else Inr [reduce_planes fmax ps])"

definition mean_planes :: "plane list \<Rightarrow> plane list" where
  "mean_planes ps =
     [map (\<lambda>v. fdiv v (Num (real (length ps)))) (reduce_planes fadd ps)]"

text \<open>The elementwise difference of two one-dimensional tensors, with broadcasting.\<close>

definition abs_diff :: "fval list \<Rightarrow> fval list \<Rightarrow> py_error + fval list" where
  "abs_diff xs ys =
     (let n = (if length xs = 1 then length ys else length xs)
      in ebind (bcast_to n xs) (\<lambda>xs'.
         ebind (bcast_to n ys) (\<lambda>ys'.
           Inr (map2 (\<lambda>x y. fabs (fsub x y)) xs' ys'))))"

text \<open>
  The trimming of one channel's samples: \<^verbatim>\<open>num_kept\<close>, the indices of the smallest
  absolute differences, and the two samples at those indices.
\<close>

definition num_kept :: "rat \<Rightarrow> nat \<Rightarrow> py_error + int" where
  "num_kept percentile n =
     (let x = fl64 (1 - percentile) * of_nat n
      in if overflows x then Inl OverflowError else Inr (py_round (fl64 x)))"

definition keep_pixels ::
  "'m externals \<Rightarrow> fval list \<Rightarrow> fval list \<Rightarrow> rat \<Rightarrow> py_error + fval list \<times> fval list" where
  "keep_pixels ext syn_pixels real_pixels percentile =
     ebind (num_kept percentile (length real_pixels)) (\<lambda>k.
     ebind (abs_diff syn_pixels real_pixels) (\<lambda>diff.
     ebind (if k < 0 \<or> int (length diff) < k then Inl RuntimeError
            else topk_smallest ext diff (nat k)) (\<lambda>indices.
     ebind (emap (getitem syn_pixels) indices) (\<lambda>syn_kept.
     ebind (emap (getitem real_pixels) indices) (\<lambda>real_kept.
       Inr (syn_kept, real_kept))))))"

text \<open>The branch on \<^verbatim>\<open>syn_pixels.sum() == 0\<close>.\<close>

definition fit_kept ::
  "'m externals \<Rightarrow> fval list \<Rightarrow> fval list \<Rightarrow> nat \<Rightarrow> py_error + fval list" where
  "fit_kept ext syn_pixels real_pixels polynomial_degree =
     (if tsum syn_pixels = Num 0
      then Inr (replicate polynomial_degree (Num 0) @ [tmean real_pixels])
      else polyfit ext syn_pixels real_pixels polynomial_degree)"

text \<open>The two samples of a channel after the trimming.\<close>

definition kept_samples ::
  "'m externals \<Rightarrow> batch \<Rightarrow> mask \<Rightarrow> fval list list \<Rightarrow> rat \<Rightarrow> nat \<Rightarrow>
   py_error + fval list \<times> fval list" where
  "kept_samples ext syn_obj warped_obj_mask real_rows percentile channel =
     ebind (syn_sample syn_obj (Some warped_obj_mask) channel) (\<lambda>syn_pixels.
     ebind (getitem real_rows channel) (\<lambda>real_pixels.
       keep_pixels ext syn_pixels real_pixels percentile))"

definition fit_channel ::
  "'m externals \<Rightarrow> batch \<Rightarrow> mask \<Rightarrow> fval list list \<Rightarrow> nat \<Rightarrow> rat \<Rightarrow> nat \<Rightarrow>
   py_error + fval list" where
  "fit_channel ext syn_obj warped_obj_mask real_rows polynomial_degree percentile channel =
     ebind (kept_samples ext syn_obj warped_obj_mask real_rows percentile channel)
       (\<lambda>(syn_kept, real_kept). fit_kept ext syn_kept real_kept polynomial_degree)"

text \<open>
  The statements before the loop: the warp, the colour space, the stacking of the real
  samples and the reduction and channel selection of the mode.
\<close>

definition fit_prepare ::
  "'m externals \<Rightarrow> fval list list \<Rightarrow> batch option \<Rightarrow> mask \<Rightarrow> 'm \<Rightarrow> string \<Rightarrow> string \<Rightarrow>
   py_error + batch \<times> fval list list \<times> nat list" where
  "fit_prepare ext real_pixels_by_channel syn_obj warped_obj_mask transform_mat interp mode =
     (case syn_obj of
        None \<Rightarrow> Inl ValueError
      | Some s \<Rightarrow>
          ebind (warp_perspective ext s transform_mat warped_obj_mask interp) (\<lambda>warped.
          ebind (if str_contains mode ''hsv'' then rgb_to_hsv ext warped
                 else if str_contains mode ''lab'' then rgb_to_lab ext warped
                 else Inr warped) (\<lambda>syn.
          ebind (stack real_pixels_by_channel) (\<lambda>rows.
            if mode = ''max'' then
              ebind (emap max_planes syn) (\<lambda>syn'.
              ebind (max_planes rows) (\<lambda>rows'. Inr (syn', rows', [0])))
            else if mode = ''mean'' then
              Inr (map mean_planes syn, mean_planes rows, [0])
            else if str_contains mode ''-sv'' then Inr (syn, rows, [1, 2])
            else if str_contains mode ''-l'' then Inr (syn, rows, [0])
            else Inr (syn, rows, [0, 1, 2])))))"

definition fit_polynomial ::
  "'m externals \<Rightarrow> fval list list \<Rightarrow> batch option \<Rightarrow> mask \<Rightarrow> 'm \<Rightarrow> string \<Rightarrow> nat \<Rightarrow> rat \<Rightarrow>
   string \<Rightarrow> py_error + fval list list" where
  "fit_polynomial ext real_pixels_by_channel syn_obj warped_obj_mask transform_mat interp
     polynomial_degree percentile mode =
     ebind (fit_prepare ext real_pixels_by_channel syn_obj warped_obj_mask transform_mat
              interp mode) (\<lambda>(syn, rows, channels).
     ebind (emap (fit_channel ext syn warped_obj_mask rows polynomial_degree percentile)
              channels) stack)"

section \<open>The statistics of the specification\<close>

text \<open>
  The mean and the standard deviation of a sample of real numbers, and the coefficients
  the specification gives for the colour transfer: the scale is the standard deviation of
  the real sample divided by that of the synthetic sample, the divisor not below
  \<open>EPS\<close>; the offset is the real mean minus the synthetic mean times the scale. They are
  what the fitter's results are compared with.
\<close>

definition spec_mean :: "real list \<Rightarrow> real" where
  "spec_mean xs = sum_list xs / real (length xs)"

definition spec_std :: "real list \<Rightarrow> real" where
  "spec_std xs = sqrt (sum_list (map (\<lambda>x. (x - spec_mean xs)\<^sup>2) xs) / (real (length xs) - 1))"

definition spec_scale :: "real list \<Rightarrow> real list \<Rightarrow> real" where
  "spec_scale rs ss = spec_std rs / max (spec_std ss) EPS"

definition spec_offset :: "real list \<Rightarrow> real list \<Rightarrow> real" where
  "spec_offset rs ss = spec_mean rs - spec_mean ss * spec_scale rs ss"

section \<open>Applying the coefficients\<close>

text \<open>
  The two colour-space converters of a \<^verbatim>\<open>RelightTransform\<close> are passed to the apply
  functions as a pair; Kornia's converters are not part of the repository, so the pair is
  a parameter of the model. A call of \<^verbatim>\<open>logger.debug\<close> is recorded in the result with
  its first two arguments, the number of out-of-range values and \<^verbatim>\<open>inputs.numel()\<close>.
\<close>

type_synonym color_tfs = "(batch \<Rightarrow> py_error + batch) \<times> (batch \<Rightarrow> py_error + batch)"

datatype log_entry = Debug_oob nat nat

text \<open>Broadcasting two lists along one dimension.\<close>

definition bcast2 :: "'a list \<Rightarrow> 'b list \<Rightarrow> py_error + ('a \<times> 'b) list" where
  "bcast2 xs ys =
     (if length xs = length ys then Inr (zip xs ys)
      else if length xs = 1 then Inr (zip (replicate (length ys) (hd xs)) ys)
      else if length ys = 1 then Inr (zip xs (replicate (length xs) (hd ys)))
      else Inl RuntimeError)"

primrec efold :: "('a \<Rightarrow> 's \<Rightarrow> 'e + 's) \<Rightarrow> 'a list \<Rightarrow> 's \<Rightarrow> 'e + 's" where
  "efold f [] s = Inr s"
| "efold f (x # xs) s = (case f x s of Inl e \<Rightarrow> Inl e | Inr s' \<Rightarrow> efold f xs s')"

text \<open>
  \<^verbatim>\<open>ct_coeffs.view(-1, 3, 2, 1, 1)\<close> of a tensor given by its elements in row-major order:
  blocks of three rows \<open>[scale, offset]\<close>. The number of elements is a positive multiple of
  six, or the view raises.
\<close>

definition view_3_2 :: "fval list \<Rightarrow> py_error + fval list list list" where
  "view_3_2 t =
     (if t = [] \<or> length t mod 6 \<noteq> 0 then Inl RuntimeError
      else Inr (map (\<lambda>i. map (\<lambda>c. [t ! (6 * i + 2 * c), t ! (6 * i + 2 * c + 1)]) [0, 1, 2])
                  [0..<length t div 6]))"

definition affine_plane :: "plane \<Rightarrow> fval list \<Rightarrow> plane" where
  "affine_plane p co = map (\<lambda>v. fadd (fmul v (co ! 0)) (co ! 1)) p"

text \<open>
  One pass of the loop \<^verbatim>\<open>for channel in channels\<close>: the right-hand side reads the
  converted input \<open>lab\<close>, the assignment writes channel \<open>channel\<close> of \<open>lab_out\<close>.
\<close>

definition ct_assign_channel ::
  "batch \<Rightarrow> fval list list list \<Rightarrow> nat \<Rightarrow> batch \<Rightarrow> py_error + batch" where
  "ct_assign_channel lab ct channel lab_out =
     ebind (select_channel lab channel) (\<lambda>planes.
     ebind (if channel < 3 then Inr (map (\<lambda>block. block ! channel) ct) else Inl IndexError)
       (\<lambda>cos.
     ebind (bcast_to (length planes) cos) (\<lambda>cos'.
       Inr (map2 (\<lambda>img (p, co). img[channel := affine_plane p co])
              lab_out (zip planes cos')))))"

definition ct_all_channels :: "batch \<Rightarrow> fval list list list \<Rightarrow> py_error + batch" where
  "ct_all_channels lab ct =
     ebind (bcast2 lab ct) (\<lambda>pairs.
       emap (\<lambda>(img, block).
               ebind (bcast2 img block) (\<lambda>pcs. Inr (map (\<lambda>(p, co). affine_plane p co) pcs)))
         pairs)"

text \<open>The value of \<^verbatim>\<open>rgb_out\<close> before the test for out-of-range values.\<close>

definition color_transfer_rgb_out ::
  "batch \<Rightarrow> fval list \<Rightarrow> nat list option \<Rightarrow> color_tfs option \<Rightarrow> py_error + batch" where
  "color_transfer_rgb_out inputs ct_coeffs channels color_space_transforms =
     (case color_space_transforms of
        None \<Rightarrow> Inl TypeError
      | Some (to_lab, to_rgb) \<Rightarrow>
          ebind (to_lab inputs) (\<lambda>lab.
          ebind (view_3_2 ct_coeffs) (\<lambda>ct.
          ebind (case channels of
                   None \<Rightarrow> ct_all_channels lab ct
                 | Some chs \<Rightarrow> efold (ct_assign_channel lab ct) chs lab) to_rgb)))"

definition oob :: "fval \<Rightarrow> bool" where
  "oob v = (flt v (Num 0) \<or> flt (Num 1) v)"

definition numel :: "batch \<Rightarrow> nat" where
  "numel x = length (concat (concat x))"

definition clip_and_log :: "batch \<Rightarrow> batch \<Rightarrow> log_entry list \<times> batch" where
  "clip_and_log inputs rgb_out =
     (let num_oob_pixels = length (filter oob (concat (concat rgb_out)))
      in if 0 < num_oob_pixels
         then ([Debug_oob num_oob_pixels (numel inputs)], map_batch (\<lambda>v. clamp v 0 1) rgb_out)
         else ([], rgb_out))"

definition color_transfer ::
  "batch \<Rightarrow> fval list \<Rightarrow> nat list option \<Rightarrow> color_tfs option \<Rightarrow>
   py_error + log_entry list \<times> batch" where
  "color_transfer inputs ct_coeffs channels color_space_transforms =
     ebind (color_transfer_rgb_out inputs ct_coeffs channels color_space_transforms)
       (\<lambda>rgb_out. Inr (clip_and_log inputs rgb_out))"

subsection \<open>The polynomial\<close>

text \<open>
  \<^verbatim>\<open>poly_coeffs\<close> is a tensor of three dimensions \<open>[N, C, D]\<close>, a list of \<open>N\<close> blocks of
  \<open>C\<close> rows of \<open>D\<close> coefficients, highest degree first; the test of \<^verbatim>\<open>poly_coeffs.ndim\<close>
  is settled by the type. The sizes \<^verbatim>\<open>shape[-2]\<close> and \<^verbatim>\<open>shape[-1]\<close> are read off the
  first block.
\<close>

definition shape_m2 :: "fval list list list \<Rightarrow> nat" where
  "shape_m2 t = (case t of [] \<Rightarrow> 0 | b # _ \<Rightarrow> length b)"

text \<open>
  The sum over the degrees of \<^verbatim>\<open>x.pow(degrees) * coeffs\<close>, with
  \<^verbatim>\<open>degrees = arange(deg - 1, -1, -1)\<close>.
\<close>

definition poly_eval :: "fval list \<Rightarrow> fval \<Rightarrow> fval" where
  "poly_eval co x = tsum (map2 (\<lambda>d c. fmul (fpow x d) c) (rev [0..<length co]) co)"

definition pm_all_channels :: "batch \<Rightarrow> fval list list list \<Rightarrow> py_error + batch" where
  "pm_all_channels inputs poly_coeffs =
     ebind (bcast2 inputs poly_coeffs) (\<lambda>pairs.
       emap (\<lambda>(img, block).
               ebind (bcast2 img block) (\<lambda>pcs. Inr (map (\<lambda>(p, co). map (poly_eval co) p) pcs)))
         pairs)"

text \<open>\<^verbatim>\<open>channels.index(channel)\<close> for a \<open>channel\<close> that is in the list.\<close>

primrec index_of :: "nat list \<Rightarrow> nat \<Rightarrow> nat" where
  "index_of [] c = 0"
| "index_of (x # xs) c = (if x = c then 0 else Suc (index_of xs c))"

text \<open>One pass of the loop \<^verbatim>\<open>for channel in range(3)\<close>: the value appended.\<close>

definition pm_channel ::
  "batch \<Rightarrow> fval list list list \<Rightarrow> nat list \<Rightarrow> nat \<Rightarrow> py_error + plane list" where
  "pm_channel inputs poly_coeffs channels channel =
     (if channel \<in> set channels then
        ebind (select_channel inputs channel) (\<lambda>planes.
        ebind (emap (\<lambda>block. getitem block (index_of channels channel)) poly_coeffs) (\<lambda>cos.
        ebind (bcast2 planes cos) (\<lambda>pcs.
          Inr (map (\<lambda>(p, co). map (poly_eval co) p) pcs))))
      else select_channel inputs channel)"

text \<open>\<^verbatim>\<open>torch.stack(new_outputs, dim=1)\<close> of planes lists of one length.\<close>

definition stack_dim1 :: "plane list list \<Rightarrow> py_error + batch" where
  "stack_dim1 ts =
     ebind (stack ts) (\<lambda>ts'. Inr (map (\<lambda>b. map (\<lambda>t. t ! b) ts') [0..<length (hd ts')]))"

definition polynomial_match_outputs ::
  "batch \<Rightarrow> fval list list list \<Rightarrow> nat list option \<Rightarrow> color_tfs option \<Rightarrow> py_error + batch" where
  "polynomial_match_outputs inputs poly_coeffs channels color_space_transforms =
     (if length poly_coeffs \<noteq> length inputs \<and> length poly_coeffs \<noteq> 1 then Inl ValueError
      else if channels = None \<and> shape_m2 poly_coeffs \<notin> {1, 3} then Inl ValueError
      else
        ebind (case color_space_transforms of
                 None \<Rightarrow> Inr inputs | Some (to_cs, to_rgb) \<Rightarrow> to_cs inputs) (\<lambda>inputs'.
        ebind (case channels of
                 None \<Rightarrow> pm_all_channels inputs' poly_coeffs
               | Some chs \<Rightarrow>
                   ebind (emap (pm_channel inputs' poly_coeffs chs) [0, 1, 2]) stack_dim1)
          (\<lambda>outputs.
             case color_space_transforms of
               None \<Rightarrow> Inr outputs | Some (to_cs, to_rgb) \<Rightarrow> to_rgb outputs)))"

definition polynomial_match ::
  "batch \<Rightarrow> fval list list list \<Rightarrow> nat list option \<Rightarrow> color_tfs option \<Rightarrow>
   py_error + log_entry list \<times> batch" where
  "polynomial_match inputs poly_coeffs channels color_space_transforms =
     ebind (polynomial_match_outputs inputs poly_coeffs channels color_space_transforms)
       (\<lambda>outputs. Inr ([], map_batch (\<lambda>v. clamp v 0 1) outputs))"

section \<open>The transform matrix of the realism test\<close>

text \<open>
  The part of \<^verbatim>\<open>main\<close> in scripts/run_realism_test_main.py that computes
  \<^verbatim>\<open>sign_tf_matrix\<close>. OpenCV's \<^verbatim>\<open>getAffineTransform\<close> and Kornia's
  \<^verbatim>\<open>get_perspective_transform\<close> are parameters. A point is the list of its two
  coordinates, a matrix the list of its rows.
\<close>

type_synonym points = "fval list list"
type_synonym fmatrix = "fval list list"

definition IMG_WIDTH :: real where
  "IMG_WIDTH = 2048"

text \<open>\<^verbatim>\<open>tgt *= IMG_WIDTH / 6036\<close>\<close>

definition scale_tgt :: "points \<Rightarrow> points" where
  "scale_tgt tgt = map (map (\<lambda>v. fmul v (Num (IMG_WIDTH / 6036)))) tgt"

text \<open>
  \<^verbatim>\<open>torch.cat((m, torch.tensor([0, 0, 1]).view(1, 1, 3).float()), dim=1)\<close> for \<open>m\<close> of
  shape \<open>[1, r, c]\<close>: the row is appended if \<open>c = 3\<close>, otherwise the sizes do not match.
\<close>

definition cat_row_001 :: "fmatrix \<Rightarrow> py_error + fmatrix" where
  "cat_row_001 m =
     (if \<forall>row \<in> set m. length row = 3 then Inr (m @ [[Num 0, Num 0, Num 1]])
      else Inl RuntimeError)"

definition uses_affine :: "string \<Rightarrow> points \<Rightarrow> bool" where
  "uses_affine geo_method src = (length src = 3 \<or> geo_method = ''affine'')"

text \<open>
  The branch \<^verbatim>\<open>geo_method in ("affine", "perspective")\<close>; the result is the matrix
  \<^verbatim>\<open>sign_tf_matrix[0]\<close>. \<open>sign\<close> holds the four annotated corners of the sign.
\<close>

definition sign_tf_matrix ::
  "(points \<Rightarrow> points \<Rightarrow> py_error + fmatrix) \<Rightarrow> (points \<Rightarrow> points \<Rightarrow> py_error + fmatrix) \<Rightarrow>
   string \<Rightarrow> points \<Rightarrow> points \<Rightarrow> py_error + fmatrix" where
  "sign_tf_matrix getAffineTransform get_perspective_transform geo_method src sign =
     (if uses_affine geo_method src then
        ebind (getAffineTransform (take 3 src) (scale_tgt (take 3 sign))) cat_row_001
      else get_perspective_transform src (scale_tgt sign))"

section \<open>Stand-ins for the external functions\<close>

text \<open>
  Concrete values for the parameters, for evaluating the fitters on examples: a warp and
  colour conversions that return their input, a \<^verbatim>\<open>topk\<close> that selects the first \<open>k\<close>
  indices (every index when \<open>k\<close> is the length), and any \<^verbatim>\<open>polyfit\<close>.
\<close>

definition ex_externals ::
  "(fval list \<Rightarrow> fval list \<Rightarrow> nat \<Rightarrow> py_error + fval list) \<Rightarrow> unit externals" where
  "ex_externals pf =
     \<lparr>warp_perspective = (\<lambda>s m k i. Inr s), rgb_to_hsv = Inr, rgb_to_lab = Inr,
      topk_smallest = (\<lambda>d k. Inr [0..<k]), polyfit = pf\<rparr>"

section \<open>Properties of RelightTransform.__init__\<close>

lemma split_not_Nil: "split sep s \<noteq> []"
  by (induction s) (auto split: list.splits)

lemma RelightTransform_init_ok_iff:
  "(\<exists>t. RelightTransform_init meth = Inr t) \<longleftrightarrow>
     \<not> str_contains meth ''color_transfer'' \<or>
     color_space meth = ''hsv'' \<or> color_space meth = ''lab''"
  by (auto simp: RelightTransform_init_def Let_def split: if_splits)

text \<open>
  Claim C9. Constructing \<^verbatim>\<open>RelightTransform\<close> with the plain method string
  \<^verbatim>\<open>"color_transfer"\<close> raises ValueError although that string is an entry of
  \<^verbatim>\<open>RELIGHT_METHODS\<close>; and a method name that contains \<^verbatim>\<open>"color_transfer"\<close>
  constructs successfully exactly when its colour-space part (the text after the last
  underscore, up to the first hyphen) is \<^verbatim>\<open>"hsv"\<close> or \<^verbatim>\<open>"lab"\<close>.
\<close>

theorem plain_color_transfer_raises:
  "RelightTransform_init ''color_transfer'' = Inl ValueError \<and>
   ''color_transfer'' \<in> set RELIGHT_METHODS \<and>
   (\<forall>meth. str_contains meth ''color_transfer'' \<longrightarrow>
      ((\<exists>t. RelightTransform_init meth = Inr t) \<longleftrightarrow>
       color_space meth = ''hsv'' \<or> color_space meth = ''lab''))"
proof (intro conjI allI impI)
  show "RelightTransform_init ''color_transfer'' = Inl ValueError"
    by (simp add: RelightTransform_init_def color_space_def channels_suffix_def)
  show "''color_transfer'' \<in> set RELIGHT_METHODS"
    by (simp add: RELIGHT_METHODS_def)
next
  fix meth
  assume "str_contains meth ''color_transfer''"
  then show "(\<exists>t. RelightTransform_init meth = Inr t) \<longleftrightarrow>
      color_space meth = ''hsv'' \<or> color_space meth = ''lab''"
    by (simp add: RelightTransform_init_ok_iff)
qed

theorem plain_color_transfer_raises_witness:
  "str_contains ''color_transfer_hsv-sv'' ''color_transfer'' \<and>
   color_space ''color_transfer_hsv-sv'' = ''hsv'' \<and>
   (\<exists>t. RelightTransform_init ''color_transfer_hsv-sv'' = Inr t)"
proof -
  have c: "str_contains ''color_transfer_hsv-sv'' ''color_transfer''"
    by simp
  have s: "color_space ''color_transfer_hsv-sv'' = ''hsv''"
    by (simp add: color_space_def)
  from plain_color_transfer_raises c s show ?thesis
    by blast
qed

section \<open>Sequencing lemmas\<close>

lemma ebind_Inr_iff: "ebind r f = Inr y \<longleftrightarrow> (\<exists>v. r = Inr v \<and> f v = Inr y)"
  by (cases r) (simp_all add: ebind_def)

lemma ebind_Inl_iff: "ebind r f = Inl e \<longleftrightarrow> r = Inl e \<or> (\<exists>v. r = Inr v \<and> f v = Inl e)"
  by (cases r) (simp_all add: ebind_def)

lemma ebind_Inr [simp]: "ebind (Inr v) f = f v"
  by (simp add: ebind_def)

lemma ebind_Inl [simp]: "ebind (Inl e) f = Inl e"
  by (simp add: ebind_def)

lemma emap_Inr_length: "emap f xs = Inr ys \<Longrightarrow> length ys = length xs"
  by (induction xs arbitrary: ys) (auto split: sum.splits)

lemma emap_Inr_nth: "emap f xs = Inr ys \<Longrightarrow> k < length xs \<Longrightarrow> f (xs ! k) = Inr (ys ! k)"
proof (induction xs arbitrary: ys k)
  case Nil
  then show ?case by simp
next
  case (Cons x xs)
  then show ?case
    by (cases k) (auto split: sum.splits)
qed

lemma emap_Inl: "emap f xs = Inl e \<Longrightarrow> \<exists>x \<in> set xs. f x = Inl e"
  by (induction xs) (auto split: sum.splits)

lemma emap_all_Inr: "(\<And>x. x \<in> set xs \<Longrightarrow> f x = Inr (g x)) \<Longrightarrow> emap f xs = Inr (map g xs)"
  by (induction xs) simp_all

lemma stack_Inr: "stack rs = Inr t \<Longrightarrow> t = rs"
  by (simp add: stack_def split: if_splits)

section \<open>The homogeneous row of the affine transform\<close>

lemma cat_row_001_last: "cat_row_001 a = Inr m \<Longrightarrow> m = a @ [[Num 0, Num 0, Num 1]]"
  by (auto simp: cat_row_001_def split: if_splits)

text \<open>
  Claim C8. On the affine path of \<^verbatim>\<open>main\<close> (three source points, or the method
  \<^verbatim>\<open>"affine"\<close>), whatever 2-by-3 matrix \<^verbatim>\<open>getAffineTransform\<close> returns for the three
  correspondences, \<^verbatim>\<open>sign_tf_matrix\<close> is that matrix with the row \<open>[0, 0, 1]\<close> appended: a
  3-by-3 matrix whose last row is exactly \<open>[0, 0, 1]\<close>.
\<close>

theorem affine_homogeneous_row:
  assumes "uses_affine geo_method src"
    and "getAffine (take 3 src) (scale_tgt (take 3 sign)) = Inr a"
    and "length a = 2"
    and "\<forall>row \<in> set a. length row = 3"
  shows "\<exists>m. sign_tf_matrix getAffine getPersp geo_method src sign = Inr m \<and>
             length m = 3 \<and> take 2 m = a \<and> last m = [Num 0, Num 0, Num 1]"
  using assms by (simp add: sign_tf_matrix_def cat_row_001_def)

theorem affine_homogeneous_row_witness:
  "uses_affine ''affine'' [[Num 0, Num 0], [Num 1, Num 0], [Num 0, Num 1]] \<and>
   (\<exists>m. sign_tf_matrix (\<lambda>s t. Inr [[Num 1, Num 0, Num 0], [Num 0, Num 1, Num 0]])
          (\<lambda>s t. Inl RuntimeError)
          ''affine'' [[Num 0, Num 0], [Num 1, Num 0], [Num 0, Num 1]]
          [[Num 0, Num 0], [Num 6036, Num 0], [Num 0, Num 6036], [Num 6036, Num 6036]] = Inr m \<and>
        length m = 3 \<and> last m = [Num 0, Num 0, Num 1])"
proof -
  let ?src = "[[Num 0, Num 0], [Num 1, Num 0], [Num 0, Num 1]]"
  let ?a = "[[Num 1, Num 0, Num 0], [Num 0, Num 1, Num 0]]"
  have u: "uses_affine ''affine'' ?src"
    by (simp add: uses_affine_def)
  have l: "length ?a = 2" and r: "\<forall>row \<in> set ?a. length row = 3"
    by simp_all
  from affine_homogeneous_row [of "''affine''" ?src "\<lambda>s t. Inr ?a" _ ?a "\<lambda>s t. Inl RuntimeError", OF u refl l r] u
  show ?thesis by blast
qed

section \<open>The degenerate branch of the polynomial fitter\<close>

lemma foldl_fadd_zeros: "\<forall>v \<in> set xs. v = Num 0 \<Longrightarrow> foldl fadd (Num 0) xs = Num 0"
  by (induction xs) simp_all

lemma tsum_zeros: "\<forall>v \<in> set xs. v = Num 0 \<Longrightarrow> tsum xs = Num 0"
  by (simp add: tsum_def foldl_fadd_zeros)

lemma fit_kept_sum_zero:
  "tsum syn_kept = Num 0 \<Longrightarrow>
   fit_kept ext syn_kept real_kept deg = Inr (replicate deg (Num 0) @ [tmean real_kept])"
  by (simp add: fit_kept_def)

lemma fit_polynomial_sum_zero:
  assumes prep: "fit_prepare ext rp syn_obj m tm interp mode = Inr (syn, rows, channels)"
    and k: "k < length channels"
    and kept: "kept_samples ext syn m rows p (channels ! k) = Inr (syn_kept, real_kept)"
    and zero: "tsum syn_kept = Num 0"
    and res: "fit_polynomial ext rp syn_obj m tm interp deg p mode = Inr coeffs"
  shows "coeffs ! k = replicate deg (Num 0) @ [tmean real_kept]"
proof -
  from res prep obtain polys where
    polys: "emap (fit_channel ext syn m rows deg p) channels = Inr polys"
    and st: "stack polys = Inr coeffs"
    by (auto simp: fit_polynomial_def ebind_Inr_iff)
  from st have "coeffs = polys"
    by (rule stack_Inr)
  moreover from emap_Inr_nth [OF polys k]
  have "fit_channel ext syn m rows deg p (channels ! k) = Inr (polys ! k)" .
  with kept zero have "polys ! k = replicate deg (Num 0) @ [tmean real_kept]"
    by (simp add: fit_channel_def fit_kept_sum_zero)
  ultimately show ?thesis by simp
qed

lemma num_kept_0_2: "num_kept 0 2 = Inr 2"
  by code_simp

lemma num_kept_0_Suc2: "num_kept 0 (Suc (Suc 0)) = Inr 2"
  using num_kept_0_2 by (simp add: numeral_2_eq_2)


lemma ex_kept_samples:
  "kept_samples (ex_externals pf) [[[a0, a1], [b0, b1], [c0, c1]]] [[True, True]]
     [[r0, r1], [s0, s1], [t0, t1]] 0 channel =
   (if channel = 0 then Inr ([a0, a1], [r0, r1])
    else if channel = 1 then Inr ([b0, b1], [s0, s1])
    else if channel = 2 then Inr ([c0, c1], [t0, t1])
    else Inl IndexError)"
  by (simp add: kept_samples_def syn_sample_def select_channel_def masked_select_def
      getitem_def keep_pixels_def num_kept_0_Suc2 abs_diff_def bcast_to_def ex_externals_def
      numeral_2_eq_2 upt_rec [of 0] upt_rec [of "Suc 0"])

text \<open>
  Claim C4. When \<^verbatim>\<open>_fit_polynomial\<close> returns, the polynomial of every channel whose kept
  synthetic pixel values are all zero is the constant polynomial of the mean of the kept
  real pixels: its last coefficient is that mean and the \<open>polynomial_degree\<close> coefficients
  before it are zero.
\<close>

theorem all_zero_gives_constant_polynomial:
  assumes "fit_prepare ext rp syn_obj m tm interp mode = Inr (syn, rows, channels)"
    and "k < length channels"
    and "kept_samples ext syn m rows p (channels ! k) = Inr (syn_kept, real_kept)"
    and "\<forall>v \<in> set syn_kept. v = Num 0"
    and "fit_polynomial ext rp syn_obj m tm interp deg p mode = Inr coeffs"
  shows "length (coeffs ! k) = deg + 1 \<and> last (coeffs ! k) = tmean real_kept \<and>
         (\<forall>j < deg. coeffs ! k ! j = Num 0)"
proof -
  from assms(4) have "tsum syn_kept = Num 0"
    by (rule tsum_zeros)
  from fit_polynomial_sum_zero [OF assms(1-3) this assms(5)]
  show ?thesis by (simp add: nth_append)
qed

lemma ex_fit_prepare_rgb:
  "fit_prepare (ex_externals pf) rp (Some s) m () interp [] =
     ebind (stack rp) (\<lambda>rows. Inr (s, rows, [0, 1, 2]))"
  by (simp add: fit_prepare_def ex_externals_def)

lemma ex_stack: "stack [[r0, r1], [s0, s1], [t0, t1]] = Inr [[r0, r1], [s0, s1], [t0, t1]]"
  by (simp add: stack_def)

lemma tsum_pair: "tsum [Num a, Num b] = Num (a + b)"
  by (simp add: tsum_def)

lemma tmean_pair: "tmean [Num a, Num b] = Num ((a + b) / 2)"
  by (simp add: tmean_def tsum_def)

lemma ex_fit_channels:
  assumes "a0 + a1 = 0" "b0 + b1 = 0" "c0 + c1 = 0"
  shows "emap (fit_channel (ex_externals pf)
                 [[[Num a0, Num a1], [Num b0, Num b1], [Num c0, Num c1]]] [[True, True]]
                 [[Num r0, Num r1], [Num s0, Num s1], [Num t0, Num t1]] 1 0) [0, 1, 2] =
         Inr [[Num 0, Num ((r0 + r1) / 2)], [Num 0, Num ((s0 + s1) / 2)],
              [Num 0, Num ((t0 + t1) / 2)]]"
  using assms by (simp add: fit_channel_def ex_kept_samples fit_kept_def tsum_pair tmean_pair)

theorem all_zero_gives_constant_polynomial_witness:
  "fit_prepare (ex_externals (\<lambda>x y d. Inl RuntimeError))
     [[Num 1, Num 3], [Num 2, Num 4], [Num 5, Num 5]]
     (Some [[[Num 0, Num 0], [Num 0, Num 0], [Num 0, Num 0]]]) [[True, True]] () ''bilinear'' [] =
     Inr ([[[Num 0, Num 0], [Num 0, Num 0], [Num 0, Num 0]]],
          [[Num 1, Num 3], [Num 2, Num 4], [Num 5, Num 5]], [0, 1, 2]) \<and>
   kept_samples (ex_externals (\<lambda>x y d. Inl RuntimeError))
     [[[Num 0, Num 0], [Num 0, Num 0], [Num 0, Num 0]]] [[True, True]]
     [[Num 1, Num 3], [Num 2, Num 4], [Num 5, Num 5]] 0 ([0, 1, 2] ! 1) =
     Inr ([Num 0, Num 0], [Num 2, Num 4]) \<and>
   fit_polynomial (ex_externals (\<lambda>x y d. Inl RuntimeError))
     [[Num 1, Num 3], [Num 2, Num 4], [Num 5, Num 5]]
     (Some [[[Num 0, Num 0], [Num 0, Num 0], [Num 0, Num 0]]]) [[True, True]] () ''bilinear''
     1 0 [] = Inr [[Num 0, Num 2], [Num 0, Num 3], [Num 0, Num 5]] \<and>
   last ([[Num 0, Num 2], [Num 0, Num 3], [Num 0, Num 5]] ! 1) = tmean [Num 2, Num 4] \<and>
   [[Num 0, Num 2], [Num 0, Num 3], [Num 0, Num 5]] ! 1 ! 0 = Num 0"
proof -
  let ?ext = "ex_externals (\<lambda>x y d. Inl RuntimeError)"
  let ?rp = "[[Num 1, Num 3], [Num 2, Num 4], [Num 5, Num 5]]"
  let ?z = "[[[Num 0, Num 0], [Num 0, Num 0], [Num 0, Num 0]]]"
  have prep: "fit_prepare ?ext ?rp (Some ?z) [[True, True]] () ''bilinear'' [] =
      Inr (?z, ?rp, [0, 1, 2])"
    by (simp add: ex_fit_prepare_rgb ex_stack)
  have k: "1 < length [0::nat, 1, 2]"
    by simp
  have kept: "kept_samples ?ext ?z [[True, True]] ?rp 0 ([0, 1, 2] ! 1) =
      Inr ([Num 0, Num 0], [Num 2, Num 4])"
    by (simp add: ex_kept_samples)
  have zero: "\<forall>v \<in> set [Num 0, Num 0]. v = Num 0"
    by simp
  have res: "fit_polynomial ?ext ?rp (Some ?z) [[True, True]] () ''bilinear'' 1 0 [] =
      Inr [[Num 0, Num 2], [Num 0, Num 3], [Num 0, Num 5]]"
    using ex_fit_channels [of 0 0 0 0 0 0 _ 1 3 2 4 5 5]
    by (simp add: fit_polynomial_def prep stack_def)
  from all_zero_gives_constant_polynomial [OF prep k kept zero res] prep kept res
  show ?thesis by simp
qed



section \<open>The colour-transfer fitter on finite samples\<close>

lemma foldl_fadd_Num: "foldl fadd (Num a) (map Num xs) = Num (a + sum_list xs)"
  by (induction xs arbitrary: a) (simp_all add: add.assoc)

lemma tsum_Num: "tsum (map Num xs) = Num (sum_list xs)"
  by (simp add: tsum_def foldl_fadd_Num)

lemma tmean_Num: "xs \<noteq> [] \<Longrightarrow> tmean (map Num xs) = Num (spec_mean xs)"
  by (simp add: tmean_def tsum_Num spec_mean_def)

lemma tstd_Num:
  assumes "2 \<le> length xs"
  shows "tstd (map Num xs) = Num (spec_std xs)"
proof -
  from assms have ne: "xs \<noteq> []" by auto
  have sq: "map (\<lambda>x. fmul (fsub x (Num (spec_mean xs))) (fsub x (Num (spec_mean xs)))) (map Num xs) =
      map Num (map (\<lambda>x. (x - spec_mean xs)\<^sup>2) xs)"
    by (simp add: fsub_def power2_eq_square)
  have nonneg: "0 \<le> sum_list (map (\<lambda>x. (x - spec_mean xs)\<^sup>2) xs)"
    by (rule sum_list_nonneg) auto
  from assms have n1: "real (length xs - 1) = real (length xs) - 1" "real (length xs) - 1 > 0"
    by simp_all
  have "tstd (map Num xs) =
      fsqrt (fdiv (Num (sum_list (map (\<lambda>x. (x - spec_mean xs)\<^sup>2) xs)))
               (Num (real (length xs) - 1)))"
    unfolding tstd_def Let_def tmean_Num [OF ne] sq tsum_Num using n1 by simp
  also have "\<dots> = Num (spec_std xs)"
    using n1 nonneg by (simp add: spec_std_def)
  finally show ?thesis .
qed

lemma EPS_pos: "0 < EPS"
  by (simp add: EPS_def)

lemma clamp_min_Num: "clamp_min (Num a) lo = Num (max a lo)"
  by (simp add: clamp_min_def fmax_def max_def)

lemma ct_scale_Num:
  "2 \<le> length rs \<Longrightarrow> 2 \<le> length ss \<Longrightarrow>
   ct_scale (map Num rs) (map Num ss) = Num (spec_scale rs ss)"
  using EPS_pos by (simp add: ct_scale_def tstd_Num clamp_min_Num spec_scale_def max_def)

lemma ct_offset_Num:
  "rs \<noteq> [] \<Longrightarrow> ss \<noteq> [] \<Longrightarrow>
   ct_offset (map Num rs) (map Num ss) (Num (spec_scale rs ss)) = Num (spec_offset rs ss)"
  by (simp add: ct_offset_def tmean_Num fsub_def spec_offset_def)

lemma ct_channel_Num:
  assumes "syn_sample syn om c = Inr (map Num ss)" "c < length rp" "rp ! c = map Num rs"
    and "2 \<le> length rs" "2 \<le> length ss"
  shows "ct_channel syn om rp c = Inr [Num (spec_scale rs ss), Num (spec_offset rs ss)]"
proof -
  from assms(4,5) have "rs \<noteq> []" "ss \<noteq> []" by auto
  with assms show ?thesis
    by (simp add: ct_channel_def getitem_def ct_scale_Num ct_offset_Num)
qed

text \<open>
  Claim C1. For real and synthetic samples of finite values with at least two elements in
  each of the three channels, \<^verbatim>\<open>_get_color_transfer_params\<close> returns, and the row of each
  channel is the scale and the offset of the specification: the standard deviation of the
  real sample over that of the synthetic sample, the divisor not below \<open>EPS = 1e-6\<close>, and
  the real mean minus the synthetic mean times that scale. The divisor is positive, so the
  coefficients are finite numbers also when the synthetic sample has no variance.
\<close>

theorem color_transfer_params_formula:
  assumes "ct_convert to_hsv syn_obj mode = Inr syn"
    and "\<forall>c < 3. syn_sample syn om c = Inr (map Num (ss c)) \<and> 2 \<le> length (ss c)"
    and "\<forall>c < 3. c < length rp \<and> rp ! c = map Num (rs c) \<and> 2 \<le> length (rs c)"
  shows "get_color_transfer_params to_hsv rp syn_obj om mode =
           Inr (map (\<lambda>c. [Num (spec_std (rs c) / max (spec_std (ss c)) EPS),
                           Num (spec_mean (rs c) -
                                spec_mean (ss c) * (spec_std (rs c) / max (spec_std (ss c)) EPS))])
                  [0, 1, 2]) \<and>
         (\<forall>c < 3. 0 < max (spec_std (ss c)) EPS)"
proof -
  have ch: "ct_channel syn om rp c = Inr [Num (spec_scale (rs c) (ss c)), Num (spec_offset (rs c) (ss c))]"
    if "c \<in> set [0, 1, 2]" for c
  proof -
    from that have "c < 3" by auto
    with assms(2,3) show ?thesis
      by (intro ct_channel_Num) auto
  qed
  have "emap (ct_channel syn om rp) [0, 1, 2] =
      Inr (map (\<lambda>c. [Num (spec_scale (rs c) (ss c)), Num (spec_offset (rs c) (ss c))]) [0, 1, 2])"
    by (rule emap_all_Inr) (rule ch)
  then have "get_color_transfer_params to_hsv rp syn_obj om mode =
      Inr (map (\<lambda>c. [Num (spec_scale (rs c) (ss c)), Num (spec_offset (rs c) (ss c))]) [0, 1, 2])"
    using assms(1) by (simp add: get_color_transfer_params_def ct_fit_coeffs_def)
  moreover have "0 < max (spec_std (ss c)) EPS" for c
    using EPS_pos by (simp add: max_def)
  ultimately show ?thesis
    by (simp add: spec_scale_def spec_offset_def)
qed

lemma ex_syn_sample:
  "syn_sample [[[a0, a1], [b0, b1], [c0, c1]]] (Some [[True, True]]) c =
     (if c = 0 then Inr [a0, a1] else if c = 1 then Inr [b0, b1]
      else if c = 2 then Inr [c0, c1] else Inl IndexError)"
  by (simp add: syn_sample_def select_channel_def masked_select_def)

theorem color_transfer_params_formula_witness:
  "ct_convert Inr (Some [[[Num 2, Num 2], [Num 2, Num 2], [Num 2, Num 2]]]) [] =
     Inr [[[Num 2, Num 2], [Num 2, Num 2], [Num 2, Num 2]]] \<and>
   syn_sample [[[Num 2, Num 2], [Num 2, Num 2], [Num 2, Num 2]]] (Some [[True, True]]) 0 =
     Inr (map Num [2, 2]) \<and>
   get_color_transfer_params Inr [[Num 1, Num 3], [Num 1, Num 3], [Num 1, Num 3]]
     (Some [[[Num 2, Num 2], [Num 2, Num 2], [Num 2, Num 2]]]) (Some [[True, True]]) [] =
     Inr (map (\<lambda>c. [Num (spec_std [1, 3] / max (spec_std [2, 2]) EPS),
                     Num (spec_mean [1, 3] -
                          spec_mean [2, 2] * (spec_std [1, 3] / max (spec_std [2, 2]) EPS))])
            [0, 1, 2]) \<and>
   spec_std [2, 2] = 0 \<and> spec_std [1, 3] = sqrt 2"
proof -
  let ?syn = "[[[Num 2, Num 2], [Num 2, Num 2], [Num 2, Num 2]]]"
  let ?rp = "[[Num 1, Num 3], [Num 1, Num 3], [Num 1, Num 3]]"
  have conv: "ct_convert Inr (Some ?syn) [] = Inr ?syn"
    by (simp add: ct_convert_def)
  have s: "\<forall>c < 3. syn_sample ?syn (Some [[True, True]]) c = Inr (map Num ((\<lambda>c. [2, 2]) c)) \<and>
      2 \<le> length ((\<lambda>c. [2, 2 :: real]) c)"
    by (simp add: ex_syn_sample)
  have r: "\<forall>c < 3. c < length ?rp \<and> ?rp ! c = map Num ((\<lambda>c. [1, 3]) c) \<and>
      2 \<le> length ((\<lambda>c. [1, 3 :: real]) c)"
    by (simp add: numeral_3_eq_3 less_Suc_eq)
  have z: "spec_std [2, 2] = 0" "spec_std [1, 3] = sqrt 2"
    by (simp_all add: spec_std_def spec_mean_def)
  from color_transfer_params_formula [OF conv s r] conv z show ?thesis
    by (simp add: ex_syn_sample)
qed

section \<open>The assertion of the colour-transfer fitter\<close>

lemma bcast_to_error: "bcast_to n xs = Inl e \<Longrightarrow> e = RuntimeError"
  by (simp add: bcast_to_def split: if_splits)

lemma einsum_image_error: "einsum_image m img = Inl e \<Longrightarrow> e = RuntimeError"
  by (auto simp: einsum_image_def ebind_Inl_iff dest: bcast_to_error)

lemma einsum_bchw_cd_error: "einsum_bchw_cd x m = Inl e \<Longrightarrow> e = RuntimeError"
  by (auto simp: einsum_bchw_cd_def dest!: emap_Inl einsum_image_error)

lemma RGBtoLab_forward_error: "RGBtoLab_forward x = Inl e \<Longrightarrow> e = RuntimeError"
  by (auto simp: RGBtoLab_forward_def Let_def ebind_Inl_iff dest: einsum_bchw_cd_error)

lemma ct_convert_no_assert:
  assumes "\<forall>x. to_hsv x \<noteq> Inl AssertionError"
  shows "ct_convert to_hsv syn_obj mode \<noteq> Inl AssertionError"
  using assms
  by (auto simp: ct_convert_def split: option.splits dest: RGBtoLab_forward_error)

lemma syn_sample_no_assert: "syn_sample syn om c \<noteq> Inl AssertionError"
  by (auto simp: syn_sample_def ebind_Inl_iff select_channel_def masked_select_def
      split: option.splits if_splits)

lemma ct_channel_no_assert: "ct_channel syn om rp c \<noteq> Inl AssertionError"
  using syn_sample_no_assert [of syn om c]
  by (auto simp: ct_channel_def ebind_Inl_iff getitem_def Let_def split: if_splits)

lemma ct_fit_coeffs_no_assert:
  assumes "\<forall>x. to_hsv x \<noteq> Inl AssertionError"
  shows "ct_fit_coeffs to_hsv rp syn_obj om mode \<noteq> Inl AssertionError"
proof
  assume "ct_fit_coeffs to_hsv rp syn_obj om mode = Inl AssertionError"
  then consider "ct_convert to_hsv syn_obj mode = Inl AssertionError"
    | syn where "emap (ct_channel syn om rp) [0, 1, 2] = Inl AssertionError"
    by (auto simp: ct_fit_coeffs_def ebind_Inl_iff)
  then show False
  proof cases
    case 1
    with ct_convert_no_assert [OF assms] show False by blast
  next
    case 2
    from emap_Inl [OF 2] ct_channel_no_assert show False by blast
  qed
qed

text \<open>
  Claim C7. Provided Kornia's \<^verbatim>\<open>rgb_to_hsv\<close> raises no AssertionError of its own,
  \<^verbatim>\<open>_get_color_transfer_params\<close> fails with an AssertionError exactly when the
  coefficients were computed and one of them is NaN; and when it returns, it returns the
  computed coefficients and none of them is NaN.
\<close>

theorem nan_coefficient_asserts:
  assumes "\<forall>x. to_hsv x \<noteq> Inl AssertionError"
  shows "(get_color_transfer_params to_hsv rp syn_obj om mode = Inl AssertionError \<longleftrightarrow>
            (\<exists>coeffs. ct_fit_coeffs to_hsv rp syn_obj om mode = Inr coeffs \<and>
               (\<exists>row \<in> set coeffs. \<exists>v \<in> set row. isnan v))) \<and>
         (\<forall>coeffs. get_color_transfer_params to_hsv rp syn_obj om mode = Inr coeffs \<longrightarrow>
            ct_fit_coeffs to_hsv rp syn_obj om mode = Inr coeffs \<and>
            (\<forall>row \<in> set coeffs. \<forall>v \<in> set row. \<not> isnan v))"
proof (cases "ct_fit_coeffs to_hsv rp syn_obj om mode")
  case (Inl e)
  with ct_fit_coeffs_no_assert [OF assms, of rp syn_obj om mode]
  have "e \<noteq> AssertionError" by auto
  with Inl show ?thesis
    by (simp add: get_color_transfer_params_def)
next
  case (Inr coeffs)
  then show ?thesis
    by (auto simp: get_color_transfer_params_def list_ex_iff)
qed

lemma tstd_single: "tstd [x] = NaN"
  by (cases x) (simp_all add: tstd_def tmean_def tsum_def fsub_def)

theorem nan_coefficient_asserts_witness:
  "get_color_transfer_params Inr [[Num 1], [Num 2, Num 2], [Num 2, Num 2]]
     (Some [[[Num 1, Num 1], [Num 1, Num 1], [Num 1, Num 1]]]) (Some [[True, True]]) [] =
     Inl AssertionError \<and>
   (\<exists>coeffs. ct_fit_coeffs Inr [[Num 1], [Num 2, Num 2], [Num 2, Num 2]]
      (Some [[[Num 1, Num 1], [Num 1, Num 1], [Num 1, Num 1]]]) (Some [[True, True]]) [] =
      Inr coeffs \<and> (\<exists>row \<in> set coeffs. \<exists>v \<in> set row. isnan v))"
proof -
  let ?rp = "[[Num 1], [Num 2, Num 2], [Num 2, Num 2]]"
  let ?syn = "[[[Num 1, Num 1], [Num 1, Num 1], [Num 1, Num 1]]]"
  have h: "\<forall>x :: batch. (Inr x :: py_error + batch) \<noteq> Inl AssertionError"
    by simp
  have c0: "ct_channel ?syn (Some [[True, True]]) ?rp 0 = Inr [NaN, NaN]"
    by (simp add: ct_channel_def ex_syn_sample getitem_def ct_scale_def tstd_single
        ct_offset_def fsub_def tmean_def tsum_def)
  have "\<exists>r1 r2. emap (ct_channel ?syn (Some [[True, True]]) ?rp) [0, 1, 2] =
      Inr [[NaN, NaN], r1, r2]"
    by (simp add: c0) (simp add: ct_channel_def ex_syn_sample getitem_def Let_def)
  then have "get_color_transfer_params Inr ?rp (Some ?syn) (Some [[True, True]]) [] =
      Inl AssertionError"
    by (auto simp: get_color_transfer_params_def ct_fit_coeffs_def ct_convert_def)
  with nan_coefficient_asserts [OF h, of ?rp "Some ?syn" "Some [[True, True]]" "[]"]
  show ?thesis by blast
qed

end
